theory Spec2Isabelle
  imports Complex_Main "HOL-Library.AList" "HOL-Library.Multiset"
begin

section \<open>Python values, errors and builtins used by data/voc0712.py\<close>

text \<open>
  The module runs under Python 3 only (it holds non-ASCII literals without an encoding
  line), so \<open>/\<close> is true division. A Python \<open>str\<close> is modelled as a \<open>string\<close>
  of bytes (its UTF-8 encoding); the builtins below are the ASCII fragment of Python's.
  A Python \<open>float\<close> is modelled by the rational it stands for: \<open>a / b\<close> on two
  integers is the exact quotient, the rounding of the quotient to a double is not modelled.
\<close>

datatype py_error =
    AttributeError | TypeError | ValueError | KeyError | IndexError
  | ZeroDivisionError | FileNotFoundError | UnboundLocalError | ParseError | Unmodelled

text \<open>Sequencing of fallible steps: the first raise ends the call.\<close>

definition ebind :: "py_error + 'a \<Rightarrow> ('a \<Rightarrow> py_error + 'b) \<Rightarrow> py_error + 'b" where
  "ebind m f = (case m of Inl e \<Rightarrow> Inl e | Inr x \<Rightarrow> f x)"

text \<open>\<open>[f(x) for x in xs]\<close> with a fallible \<open>f\<close>, left to right.\<close>

fun emap :: "('a \<Rightarrow> py_error + 'b) \<Rightarrow> 'a list \<Rightarrow> py_error + 'b list" where
  "emap f [] = Inr []"
| "emap f (x # xs) = ebind (f x) (\<lambda>y. ebind (emap f xs) (\<lambda>ys. Inr (y # ys)))"

datatype pynum = PyInt int | PyFloat rat

text \<open>\<open>a / b\<close> on two Python ints.\<close>

definition py_truediv :: "int \<Rightarrow> int \<Rightarrow> py_error + rat" where
  "py_truediv a b = (if b = 0 then Inl ZeroDivisionError else Inr (of_int a / of_int b))"

text \<open>\<open>xs[i]\<close> on a list: a negative index counts from the end.\<close>

definition py_getitem :: "'a list \<Rightarrow> int \<Rightarrow> py_error + 'a" where
  "py_getitem xs i =
     (if 0 \<le> i \<and> i < int (length xs) then Inr (xs ! nat i)
      else if i < 0 \<and> - int (length xs) \<le> i then Inr (xs ! nat (int (length xs) + i))
      else Inl IndexError)"

subsection \<open>Strings\<close>

definition is_space :: "char \<Rightarrow> bool" where
  "is_space c = (c \<in> set [CHR '' '', CHR 0x09, CHR 0x0A, CHR 0x0B, CHR 0x0C, CHR 0x0D,
                           CHR 0x1C, CHR 0x1D, CHR 0x1E, CHR 0x1F])"

definition lstrip :: "string \<Rightarrow> string" where
  "lstrip s = dropWhile is_space s"

definition rstrip :: "string \<Rightarrow> string" where
  "rstrip s = rev (dropWhile is_space (rev s))"

definition strip :: "string \<Rightarrow> string" where
  "strip s = rstrip (lstrip s)"

definition lower_char :: "char \<Rightarrow> char" where
  "lower_char c =
     (let n = (of_char c :: nat) in if 65 \<le> n \<and> n \<le> 90 then char_of (n + 32) else c)"

definition lower :: "string \<Rightarrow> string" where
  "lower s = map lower_char s"

text \<open>\<open>s.split(sep)\<close> with a one-character separator: never empty, keeps empty fields.\<close>

fun split :: "char \<Rightarrow> string \<Rightarrow> string list" where
  "split sep [] = [[]]"
| "split sep (c # cs) =
     (if c = sep then [] # split sep cs
      else (case split sep cs of [] \<Rightarrow> [[c]] | w # ws \<Rightarrow> (c # w) # ws))"

definition is_digit :: "char \<Rightarrow> bool" where
  "is_digit c = (c \<in> set ''0123456789'')"

definition digit_val :: "char \<Rightarrow> int" where
  "digit_val c = int (of_char c) - 48"

text \<open>
  The digits of a decimal literal after its first digit: digits, each optionally
  preceded by a single underscore.
\<close>

fun digits :: "string \<Rightarrow> int \<Rightarrow> int option" where
  "digits [] acc = Some acc"
| "digits [c] acc = (if is_digit c then Some (10 * acc + digit_val c) else None)"
| "digits (c # d # ds) acc =
     (if is_digit c then digits (d # ds) (10 * acc + digit_val c)
      else if c = CHR ''_'' \<and> is_digit d then digits ds (10 * acc + digit_val d)
      else None)"

definition unsigned :: "string \<Rightarrow> py_error + int" where
  "unsigned s =
     (case s of
        [] \<Rightarrow> Inl ValueError
      | c # cs \<Rightarrow>
          if is_digit c
          then (case digits cs (digit_val c) of None \<Rightarrow> Inl ValueError | Some n \<Rightarrow> Inr n)
          else Inl ValueError)"

text \<open>\<open>int(s)\<close> on a string, base 10.\<close>

definition py_int :: "string \<Rightarrow> py_error + int" where
  "py_int s =
     (case strip s of
        [] \<Rightarrow> Inl ValueError
      | c # cs \<Rightarrow>
          if c = CHR ''-'' then ebind (unsigned cs) (\<lambda>n. Inr (- n))
          else if c = CHR ''+'' then unsigned cs
          else unsigned (c # cs))"

text \<open>\<open>int(x)\<close> where \<open>x\<close> is an element's \<open>text\<close>, which is \<open>None\<close> or a string.\<close>

definition py_int_opt :: "string option \<Rightarrow> py_error + int" where
  "py_int_opt x = (case x of None \<Rightarrow> Inl TypeError | Some s \<Rightarrow> py_int s)"

text \<open>\<open>os.path.join(a, b)\<close> of posixpath.\<close>

definition osp_join :: "string \<Rightarrow> string \<Rightarrow> string" where
  "osp_join a b =
     (if b \<noteq> [] \<and> hd b = CHR ''/'' then b
      else if a = [] \<or> last a = CHR ''/'' then a @ b
      else a @ ''/'' @ b)"

subsection \<open>Dictionaries\<close>

text \<open>
  A \<open>dict\<close> is an association list with distinct keys; \<open>dict(pairs)\<close> inserts the
  pairs in order, a later pair replacing the value of an equal earlier key.
\<close>

type_synonym ('k, 'v) dict = "('k \<times> 'v) list"

definition py_dict :: "('k \<times> 'v) list \<Rightarrow> ('k, 'v) dict" where
  "py_dict ps = foldl (\<lambda>d (k, v). AList.update k v d) [] ps"

definition dict_get :: "('k, 'v) dict \<Rightarrow> 'k \<Rightarrow> py_error + 'v" where
  "dict_get d k = (case map_of d k of None \<Rightarrow> Inl KeyError | Some v \<Rightarrow> Inr v)"

subsection \<open>xml.etree.ElementTree elements\<close>

text \<open>An element: its tag, its \<open>text\<close> attribute (\<open>elem_text\<close>), its child elements.\<close>

datatype element = Element (tag: string) (elem_text: "string option") (children: "element list")

text \<open>\<open>e.iter(tg)\<close>: the element itself and its descendants, in document order.\<close>

fun iter :: "element \<Rightarrow> string \<Rightarrow> element list" where
  "iter (Element t x cs) tg =
     (if t = tg then [Element t x cs] else []) @ concat (map (\<lambda>c. iter c tg) cs)"

text \<open>
  \<open>e.find(tg)\<close> for a plain tag: the first child with that tag, or \<open>None\<close>.
  The receiver is itself the result of a \<open>find\<close> and may be \<open>None\<close>.
\<close>

definition find_child :: "element option \<Rightarrow> string \<Rightarrow> py_error + element option" where
  "find_child e tg =
     (case e of None \<Rightarrow> Inl AttributeError
      | Some el \<Rightarrow> Inr (List.find (\<lambda>c. tag c = tg) (children el)))"

definition text_of :: "element option \<Rightarrow> py_error + string option" where
  "text_of e = (case e of None \<Rightarrow> Inl AttributeError | Some el \<Rightarrow> Inr (elem_text el))"

text \<open>\<open>int(e.find(tg).text)\<close>\<close>

definition int_field :: "element option \<Rightarrow> string \<Rightarrow> py_error + int" where
  "int_field e tg = ebind (find_child e tg) (\<lambda>c. ebind (text_of c) py_int_opt)"

section \<open>VOCAnnotationTransform\<close>

definition VOC_CLASSES :: "string list" where
  "VOC_CLASSES =
     [''aeroplane'', ''bicycle'', ''bird'', ''boat'',
      ''bottle'', ''bus'', ''car'', ''cat'', ''chair'',
      ''cow'', ''diningtable'', ''dog'', ''horse'',
      ''motorbike'', ''person'', ''pottedplant'',
      ''sheep'', ''sofa'', ''train'', ''tvmonitor'']"

record VOCAnnotationTransform =
  class_to_ind :: "(string, int) dict"
  keep_difficult :: bool

text \<open>
  \<open>__init__(self, class_to_ind=None, keep_difficult=False)\<close>. The \<open>or\<close> takes the
  default vocabulary when the argument is \<open>None\<close> and also when it is an empty dict.
\<close>

definition VOCAnnotationTransform_init ::
  "(string, int) dict option \<Rightarrow> bool \<Rightarrow> VOCAnnotationTransform" where
  "VOCAnnotationTransform_init cti kd =
     \<lparr> class_to_ind =
         (case cti of
            None \<Rightarrow> py_dict (zip VOC_CLASSES (map int [0..<length VOC_CLASSES]))
          | Some d \<Rightarrow>
              if d = [] then py_dict (zip VOC_CLASSES (map int [0..<length VOC_CLASSES]))
              else d),
       keep_difficult = kd \<rparr>"

definition pts :: "string list" where
  "pts = [''xmin'', ''ymin'', ''xmax'', ''ymax'']"

text \<open>\<open>cur_pt / width if i % 2 == 0 else cur_pt / height\<close>\<close>

definition scale :: "nat \<Rightarrow> int \<Rightarrow> int \<Rightarrow> int \<Rightarrow> py_error + rat" where
  "scale i cur_pt width height =
     (if i mod 2 = 0 then py_truediv cur_pt width else py_truediv cur_pt height)"

text \<open>The loop \<open>for i, pt in enumerate(pts)\<close>, appending to \<open>bndbox\<close>.\<close>

fun bndbox_loop ::
  "element option \<Rightarrow> (nat \<times> string) list \<Rightarrow> int \<Rightarrow> int \<Rightarrow> pynum list \<Rightarrow> py_error + pynum list" where
  "bndbox_loop bbox [] width height bndbox = Inr bndbox"
| "bndbox_loop bbox ((i, pt) # rest) width height bndbox =
     ebind (int_field bbox pt) (\<lambda>n.
     ebind (scale i (n - 1) width height) (\<lambda>cur_pt.
     bndbox_loop bbox rest width height (bndbox @ [PyFloat cur_pt])))"

text \<open>
  The body of \<open>for obj in target.iter('object')\<close> after the difficult test: the name,
  the box, the vocabulary lookup.
\<close>

definition object_entry ::
  "VOCAnnotationTransform \<Rightarrow> element \<Rightarrow> int \<Rightarrow> int \<Rightarrow> py_error + pynum list" where
  "object_entry self obj width height =
     ebind (find_child (Some obj) ''name'') (\<lambda>nm.
     ebind (text_of nm) (\<lambda>tx.
     ebind (case tx of None \<Rightarrow> Inl AttributeError | Some s \<Rightarrow> Inr (strip (lower s))) (\<lambda>name.
     ebind (find_child (Some obj) ''bndbox'') (\<lambda>bbox.
     ebind (bndbox_loop bbox (zip [0..<length pts] pts) width height []) (\<lambda>bndbox.
     ebind (dict_get (class_to_ind self) name) (\<lambda>label_idx.
     Inr (bndbox @ [PyInt label_idx])))))))"

text \<open>\<open>int(obj.find('difficult').text) == 1\<close>\<close>

definition difficult :: "element \<Rightarrow> py_error + bool" where
  "difficult obj = ebind (int_field (Some obj) ''difficult'') (\<lambda>d. Inr (d = 1))"

fun call_loop ::
  "VOCAnnotationTransform \<Rightarrow> element list \<Rightarrow> int \<Rightarrow> int \<Rightarrow> pynum list list
     \<Rightarrow> py_error + pynum list list" where
  "call_loop self [] width height res = Inr res"
| "call_loop self (obj # objs) width height res =
     ebind (difficult obj) (\<lambda>dif.
     if \<not> keep_difficult self \<and> dif then call_loop self objs width height res
     else ebind (object_entry self obj width height) (\<lambda>bndbox.
          call_loop self objs width height (res @ [bndbox])))"

text \<open>\<open>__call__(self, target, width, height)\<close>\<close>

definition VOCAnnotationTransform_call ::
  "VOCAnnotationTransform \<Rightarrow> element \<Rightarrow> int \<Rightarrow> int \<Rightarrow> py_error + pynum list list" where
  "VOCAnnotationTransform_call self target width height =
     call_loop self (iter target ''object'') width height []"

section \<open>Arrays, the augmentation transform and the external services\<close>

text \<open>
  A three-dimensional array as numpy and torch hold it: its \<open>shape\<close> and its elements,
  nested along the axes in order. The element type is left open.
\<close>

record 'p image =
  shape :: "nat \<times> nat \<times> nat"
  pixels :: "'p list list list"

text \<open>\<open>img[:, :, idx]\<close> with a tuple of channel indices, as in \<open>img[:, :, (2, 1, 0)]\<close>.\<close>

definition take_channels :: "nat list \<Rightarrow> 'p image \<Rightarrow> py_error + 'p image" where
  "take_channels idx img =
     (case shape img of (h, w, c) \<Rightarrow>
        if list_all (\<lambda>i. i < c) idx
        then Inr \<lparr> shape = (h, w, length idx),
                   pixels = map (map (\<lambda>px. map (\<lambda>i. px ! i) idx)) (pixels img) \<rparr>
        else Inl IndexError)"

text \<open>\<open>torch.from_numpy(img).permute(2, 0, 1)\<close>: axis 2 becomes axis 0.\<close>

definition from_numpy_permute :: "'p image \<Rightarrow> 'p image" where
  "from_numpy_permute img =
     (case shape img of (h, w, c) \<Rightarrow>
        \<lparr> shape = (c, h, w),
          pixels = map (\<lambda>k. map (\<lambda>row. map (\<lambda>px. px ! k) row) (pixels img)) [0..<c] \<rparr>)"

text \<open>
  The injected augmentation: image, boxes, labels to image, boxes, labels. It is code
  outside this module and may raise.
\<close>

type_synonym 'p transform =
  "'p image \<Rightarrow> rat list list \<Rightarrow> rat list \<Rightarrow> py_error + ('p image \<times> rat list list \<times> rat list)"

definition to_float :: "pynum \<Rightarrow> rat" where
  "to_float v = (case v of PyInt i \<Rightarrow> of_int i | PyFloat r \<Rightarrow> r)"

text \<open>
  \<open>target = np.array(target)\<close> followed by \<open>target[:, :4]\<close> and \<open>target[:, 4]\<close>.
  An empty list gives a one-dimensional array, which the two-index slices reject.
\<close>

definition np_split :: "pynum list list \<Rightarrow> py_error + (rat list list \<times> rat list)" where
  "np_split target =
     (let a = map (map to_float) target
      in if a = [] then Inl IndexError
         else if list_all (\<lambda>r. 4 < length r) a
         then Inr (map (take 4) a, map (\<lambda>r. r ! 4) a)
         else Inl IndexError)"

text \<open>\<open>np.hstack((boxes, np.expand_dims(labels, axis=1)))\<close>\<close>

definition hstack :: "rat list list \<Rightarrow> rat list \<Rightarrow> py_error + rat list list" where
  "hstack boxes labels =
     (if length boxes = length labels
      then Inr (map (\<lambda>(b, l). b @ [l]) (zip boxes labels))
      else Inl ValueError)"

text \<open>
  The body of \<open>if self.transform is not None:\<close>, the same in the three classes:
  split the target, call the transform, reverse the channel axis of the image the
  transform returned, join boxes and labels again.
\<close>

definition apply_transform ::
  "'p transform \<Rightarrow> 'p image \<Rightarrow> pynum list list \<Rightarrow> py_error + ('p image \<times> rat list list)" where
  "apply_transform tr img target =
     ebind (np_split target) (\<lambda>(boxes, labels).
     ebind (tr img boxes labels) (\<lambda>(img, boxes, labels).
     ebind (take_channels [2, 1, 0] img) (\<lambda>img.
     ebind (hstack boxes labels) (\<lambda>target.
     Inr (img, target)))))"

text \<open>
  What the module reads from outside: text files (the lines iteration yields, or no
  file), \<open>ET.parse(path).getroot()\<close>, \<open>cv2.imread\<close> (\<open>None\<close> when the file cannot be
  decoded), \<open>glob.glob\<close> and \<open>torch.randperm\<close>.
\<close>

record 'p world =
  file_lines :: "string \<Rightarrow> string list option"
  ET_parse :: "string \<Rightarrow> py_error + element"
  imread :: "string \<Rightarrow> 'p image option"
  glob :: "string \<Rightarrow> string list"
  randperm :: "nat \<Rightarrow> nat list"

text \<open>\<open>img = cv2.imread(path)\<close> followed by \<open>img.shape\<close>, which \<open>None\<close> does not have.\<close>

definition imread_shape :: "'p world \<Rightarrow> string \<Rightarrow> py_error + 'p image" where
  "imread_shape w path = (case imread w path of None \<Rightarrow> Inl AttributeError | Some img \<Rightarrow> Inr img)"

section \<open>VOCDetection\<close>

text \<open>
  \<open>target_transform\<close> is \<open>None\<close> or an instance of \<open>VOCAnnotationTransform\<close>, the
  only target transform the module defines.
\<close>

record 'p VOCDetection =
  voc_root :: string
  voc_image_set :: "(string \<times> string) list"
  voc_transform :: "'p transform option"
  voc_target_transform :: "VOCAnnotationTransform option"
  voc_name :: string
  ids :: "(string \<times> string) list"

text \<open>\<open>self._annopath % img_id\<close> and \<open>self._imgpath % img_id\<close>\<close>

definition annopath :: "string \<times> string \<Rightarrow> string" where
  "annopath img_id = fst img_id @ ''/Annotations/'' @ snd img_id @ ''.xml''"

definition imgpath :: "string \<times> string \<Rightarrow> string" where
  "imgpath img_id = fst img_id @ ''/JPEGImages/'' @ snd img_id @ ''.jpg''"

definition manifest :: "string \<Rightarrow> string \<Rightarrow> string" where
  "manifest rootpath name =
     osp_join (osp_join (osp_join rootpath ''ImageSets'') ''Main'') (name @ ''.txt'')"

text \<open>
  The loop \<open>for (year, name) in image_sets\<close> of \<open>__init__\<close>. The argument
  \<open>root\<close> is written \<open>rootdir\<close>, since \<open>root\<close> is a constant of HOL.
\<close>

fun ids_loop ::
  "'p world \<Rightarrow> string \<Rightarrow> (string \<times> string) list \<Rightarrow> (string \<times> string) list
     \<Rightarrow> py_error + (string \<times> string) list" where
  "ids_loop w rootdir [] acc = Inr acc"
| "ids_loop w rootdir ((year, name) # rest) acc =
     (let rootpath = osp_join rootdir (''VOC'' @ year)
      in case file_lines w (manifest rootpath name) of
           None \<Rightarrow> Inl FileNotFoundError
         | Some ls \<Rightarrow> ids_loop w rootdir rest (acc @ map (\<lambda>line. (rootpath, strip line)) ls))"

definition VOCDetection_init ::
  "'p world \<Rightarrow> string \<Rightarrow> (string \<times> string) list \<Rightarrow> 'p transform option
     \<Rightarrow> VOCAnnotationTransform option \<Rightarrow> string \<Rightarrow> py_error + 'p VOCDetection" where
  "VOCDetection_init w rootdir image_sets transform target_transform dataset_name =
     ebind (ids_loop w rootdir image_sets []) (\<lambda>l.
     Inr \<lparr> voc_root = rootdir, voc_image_set = image_sets, voc_transform = transform,
           voc_target_transform = target_transform, voc_name = dataset_name, ids = l \<rparr>)"

text \<open>
  The value of the local \<open>target\<close> of \<open>pull_item\<close>: the parsed document, the list
  the target transform made of it, or the array joined after the augmentation.
\<close>

datatype target = Raw element | Boxes "pynum list list" | Array "rat list list"

text \<open>
  The augmentation block of \<open>pull_item\<close>. With an augmentation and no target
  transform numpy would be handed the parsed document itself; that case is outside this
  model and ends in \<open>Unmodelled\<close>.
\<close>

definition voc_augment ::
  "'p transform option \<Rightarrow> 'p image \<Rightarrow> target \<Rightarrow> py_error + ('p image \<times> target)" where
  "voc_augment transform img target =
     (case transform of
        None \<Rightarrow> Inr (img, target)
      | Some tr \<Rightarrow>
          (case target of
             Boxes l \<Rightarrow> ebind (apply_transform tr img l) (\<lambda>(img, a). Inr (img, Array a))
           | Raw e \<Rightarrow> Inl Unmodelled
           | Array a \<Rightarrow> Inl Unmodelled))"

definition pull_item ::
  "'p world \<Rightarrow> 'p VOCDetection \<Rightarrow> int \<Rightarrow> py_error + ('p image \<times> target \<times> nat \<times> nat)" where
  "pull_item w self index =
     ebind (py_getitem (ids self) index) (\<lambda>img_id.
     ebind (ET_parse w (annopath img_id)) (\<lambda>parsed.
     ebind (imread_shape w (imgpath img_id)) (\<lambda>img.
     case shape img of (height, width, channels) \<Rightarrow>
     ebind (case voc_target_transform self of
              None \<Rightarrow> Inr (Raw parsed)
            | Some t \<Rightarrow> ebind (VOCAnnotationTransform_call t parsed (int width) (int height))
                          (\<lambda>r. Inr (Boxes r))) (\<lambda>target.
     ebind (voc_augment (voc_transform self) img target) (\<lambda>(img, target).
     Inr (from_numpy_permute img, target, height, width))))))"

definition VOCDetection_getitem ::
  "'p world \<Rightarrow> 'p VOCDetection \<Rightarrow> int \<Rightarrow> py_error + ('p image \<times> target)" where
  "VOCDetection_getitem w self index =
     ebind (pull_item w self index) (\<lambda>(im, gt, h, w). Inr (im, gt))"


section \<open>ImgDataset and LPDataset\<close>

text \<open>
  A value bound to \<open>text\<close> and \<open>text_length\<close>: a string of this module or an object
  of the text-target transform. The transform returns a sequence, of which items 0 and 1
  are read.
\<close>

datatype 'a pyval = Str string | Obj 'a

type_synonym 'a text_transform = "string \<Rightarrow> py_error + 'a pyval list"

text \<open>
  \<open>[[temp[0] / width, temp[1]/height, temp[2]/width, temp[3]/height, 0]]\<close>,
  evaluated left to right.
\<close>

definition target1_of :: "int list \<Rightarrow> int \<Rightarrow> int \<Rightarrow> py_error + pynum list list" where
  "target1_of temp width height =
     ebind (py_getitem temp 0) (\<lambda>t0. ebind (py_truediv t0 width) (\<lambda>x0.
     ebind (py_getitem temp 1) (\<lambda>t1. ebind (py_truediv t1 height) (\<lambda>y0.
     ebind (py_getitem temp 2) (\<lambda>t2. ebind (py_truediv t2 width) (\<lambda>x1.
     ebind (py_getitem temp 3) (\<lambda>t3. ebind (py_truediv t3 height) (\<lambda>y1.
     Inr [[PyFloat x0, PyFloat y0, PyFloat x1, PyFloat y1, PyInt 0]]))))))))"

text \<open>
  The end of both \<open>__getitem__\<close>: \<open>text = data[0]\<close>, \<open>text_length = data[1]\<close>, the
  rois, and the returned tuple, which reads the local \<open>target\<close>. A local that no
  executed statement has assigned is \<open>None\<close> here.
\<close>

definition finish ::
  "'p image \<Rightarrow> rat list list option \<Rightarrow> nat \<Rightarrow> nat \<Rightarrow> 'a pyval list option \<Rightarrow> pynum list list
     \<Rightarrow> py_error + ('p image \<times> rat list list \<times> nat \<times> nat \<times> 'a pyval \<times> 'a pyval \<times> pynum list)" where
  "finish img target height width data target1 =
     ebind (case data of None \<Rightarrow> Inl UnboundLocalError | Some d \<Rightarrow> Inr d) (\<lambda>d.
     ebind (py_getitem d 0) (\<lambda>text.
     ebind (py_getitem d 1) (\<lambda>text_length.
     ebind (py_getitem target1 0) (\<lambda>t0.
     let rois = take 4 t0 in
     ebind (case target of None \<Rightarrow> Inl UnboundLocalError | Some t \<Rightarrow> Inr t) (\<lambda>t.
     Inr (from_numpy_permute img, t, height, width, text, text_length, rois))))))"

text \<open>
  The augmentation block of both \<open>__getitem__\<close>: it assigns \<open>target\<close> only when a
  transform is there.
\<close>

definition augment ::
  "'p transform option \<Rightarrow> 'p image \<Rightarrow> pynum list list
     \<Rightarrow> py_error + ('p image \<times> rat list list option)" where
  "augment transform img target1 =
     (case transform of
        None \<Rightarrow> Inr (img, None)
      | Some tr \<Rightarrow> ebind (apply_transform tr img target1) (\<lambda>(img, t). Inr (img, Some t)))"

text \<open>
  \<open>if self.target_transform: data = self.target_transform(text)\<close>; \<open>data\<close> keeps
  what it was bound to before when there is no transform.
\<close>

definition encode ::
  "'a text_transform option \<Rightarrow> string \<Rightarrow> 'a pyval list option \<Rightarrow> py_error + 'a pyval list option" where
  "encode target_transform text data =
     (case target_transform of
        None \<Rightarrow> Inr data
      | Some tt \<Rightarrow> ebind (tt text) (\<lambda>d. Inr (Some d)))"

record ('p, 'a) ImgDataset =
  img_root :: "string option"
  img_data :: "string list"
  img_transform :: "'p transform option"
  img_target_transform :: "'a text_transform option"
  img_name :: string

definition ImgDataset_init ::
  "'p world \<Rightarrow> string option \<Rightarrow> string option \<Rightarrow> 'p transform option \<Rightarrow> 'a text_transform option
     \<Rightarrow> py_error + ('p, 'a) ImgDataset" where
  "ImgDataset_init w rootdir csv_root transform target_transform =
     ebind (case csv_root of None \<Rightarrow> Inl TypeError | Some p \<Rightarrow> Inr p) (\<lambda>p.
     ebind (case file_lines w p of None \<Rightarrow> Inl FileNotFoundError | Some ls \<Rightarrow> Inr ls) (\<lambda>ls.
     Inr \<lparr> img_root = rootdir, img_data = ls, img_transform = transform,
           img_target_transform = target_transform, img_name = ''ocr'' \<rparr>))"

text \<open>\<open>xs[2:6]\<close>\<close>

definition slice_2_6 :: "'x list \<Rightarrow> 'x list" where
  "slice_2_6 xs = take 4 (drop 2 xs)"

definition ImgDataset_getitem ::
  "'p world \<Rightarrow> ('p, 'a) ImgDataset \<Rightarrow> int
     \<Rightarrow> py_error + ('p image \<times> rat list list \<times> nat \<times> nat \<times> 'a pyval \<times> 'a pyval \<times> pynum list)" where
  "ImgDataset_getitem w self idx =
     ebind (py_getitem (img_data self) idx) (\<lambda>line.
     let per_label = split (CHR 0x09) (rstrip line) in
     ebind (py_getitem per_label 0) (\<lambda>f0.
     ebind (case img_root self of None \<Rightarrow> Inl TypeError | Some r \<Rightarrow> Inr (osp_join r f0)) (\<lambda>path.
     ebind (imread_shape w path) (\<lambda>img.
     case shape img of (height, width, channels) \<Rightarrow>
     ebind (emap py_int (slice_2_6 per_label)) (\<lambda>temp.
     ebind (target1_of temp (int width) (int height)) (\<lambda>target1.
     ebind (augment (img_transform self) img target1) (\<lambda>(img, target).
     ebind (py_getitem per_label 1) (\<lambda>f1.
     let text = lstrip f1 in
     ebind (encode (img_target_transform self) text None) (\<lambda>data.
     finish img target height width data target1)))))))))"

record ('p, 'a) LPDataset =
  lp_root :: "string option"
  lp_data :: "string list"
  lp_transform :: "'p transform option"
  lp_target_transform :: "'a text_transform option"
  lp_name :: string
  provinces :: "string list"
  alphabets :: "string list"
  ads :: "string list"

text \<open>
  The three alphabets. A province is the UTF-8 encoding of one Chinese character (the
  last entry is the letter O); the other two are lists of one-character strings.
\<close>

definition provinces_list :: "string list" where
  "provinces_list =
     [[CHR 0xE7, CHR 0x9A, CHR 0x96], [CHR 0xE6, CHR 0xB2, CHR 0xAA],
      [CHR 0xE6, CHR 0xB4, CHR 0xA5], [CHR 0xE6, CHR 0xB8, CHR 0x9D],
      [CHR 0xE5, CHR 0x86, CHR 0x80], [CHR 0xE6, CHR 0x99, CHR 0x8B],
      [CHR 0xE8, CHR 0x92, CHR 0x99], [CHR 0xE8, CHR 0xBE, CHR 0xBD],
      [CHR 0xE5, CHR 0x90, CHR 0x89], [CHR 0xE9, CHR 0xBB, CHR 0x91],
      [CHR 0xE8, CHR 0x8B, CHR 0x8F], [CHR 0xE6, CHR 0xB5, CHR 0x99],
      [CHR 0xE4, CHR 0xBA, CHR 0xAC], [CHR 0xE9, CHR 0x97, CHR 0xBD],
      [CHR 0xE8, CHR 0xB5, CHR 0xA3], [CHR 0xE9, CHR 0xB2, CHR 0x81],
      [CHR 0xE8, CHR 0xB1, CHR 0xAB], [CHR 0xE9, CHR 0x84, CHR 0x82],
      [CHR 0xE6, CHR 0xB9, CHR 0x98], [CHR 0xE7, CHR 0xB2, CHR 0xA4],
      [CHR 0xE6, CHR 0xA1, CHR 0x82], [CHR 0xE7, CHR 0x90, CHR 0xBC],
      [CHR 0xE5, CHR 0xB7, CHR 0x9D], [CHR 0xE8, CHR 0xB4, CHR 0xB5],
      [CHR 0xE4, CHR 0xBA, CHR 0x91], [CHR 0xE8, CHR 0x97, CHR 0x8F],
      [CHR 0xE9, CHR 0x99, CHR 0x95], [CHR 0xE7, CHR 0x94, CHR 0x98],
      [CHR 0xE9, CHR 0x9D, CHR 0x92], [CHR 0xE5, CHR 0xAE, CHR 0x81],
      [CHR 0xE6, CHR 0x96, CHR 0xB0], [CHR 0xE8, CHR 0xAD, CHR 0xA6],
      [CHR 0xE5, CHR 0xAD, CHR 0xA6], ''O'']"

definition alphabets_list :: "string list" where
  "alphabets_list = map (\<lambda>c. [c]) ''ABCDEFGHJKLMNPQRSTUVWXYZO''"

definition ads_list :: "string list" where
  "ads_list = map (\<lambda>c. [c]) ''ABCDEFGHJKLMNPQRSTUVWXYZ0123456789O''"

text \<open>\<open>randperm(len(temp))[:30000].tolist()\<close>\<close>

definition selected_of :: "'p world \<Rightarrow> string list \<Rightarrow> nat list" where
  "selected_of w temp = take 30000 (randperm w (length temp))"

definition LPDataset_init ::
  "'p world \<Rightarrow> string option \<Rightarrow> string option \<Rightarrow> 'p transform option \<Rightarrow> 'a text_transform option
     \<Rightarrow> py_error + ('p, 'a) LPDataset" where
  "LPDataset_init w rootdir csv_root transform target_transform =
     ebind (case rootdir of None \<Rightarrow> Inl TypeError | Some r \<Rightarrow> Inr (glob w r)) (\<lambda>temp.
     let selected = selected_of w temp in
     ebind (emap (\<lambda>x. py_getitem temp (int x)) selected) (\<lambda>d.
     Inr \<lparr> lp_root = rootdir, lp_data = d, lp_transform = transform,
           lp_target_transform = target_transform, lp_name = ''ocr'',
           provinces = provinces_list, alphabets = alphabets_list, ads = ads_list \<rparr>))"

text \<open>
  \<open>[self.provinces[label[0]], self.alphabets[label[1]]] + [self.ads[x] for x in label[2:]]\<close>
  joined into one string.
\<close>

definition plate_text :: "('p, 'a) LPDataset \<Rightarrow> int list \<Rightarrow> py_error + string" where
  "plate_text self label =
     ebind (py_getitem label 0) (\<lambda>l0.
     ebind (py_getitem (provinces self) l0) (\<lambda>p.
     ebind (py_getitem label 1) (\<lambda>l1.
     ebind (py_getitem (alphabets self) l1) (\<lambda>a.
     ebind (emap (\<lambda>x. py_getitem (ads self) x) (drop 2 label)) (\<lambda>rest.
     Inr (concat ([p, a] @ rest)))))))"

definition LPDataset_getitem ::
  "'p world \<Rightarrow> ('p, 'a) LPDataset \<Rightarrow> int
     \<Rightarrow> py_error + ('p image \<times> rat list list \<times> nat \<times> nat \<times> 'a pyval \<times> 'a pyval \<times> pynum list)" where
  "LPDataset_getitem w self idx =
     ebind (py_getitem (lp_data self) idx) (\<lambda>per_name.
     ebind (imread_shape w per_name) (\<lambda>img.
     case shape img of (height, width, channels) \<Rightarrow>
     ebind (py_getitem (split (CHR ''/'') per_name) (- 1)) (\<lambda>per_name.
     ebind (py_getitem (split (CHR ''-'') per_name) 2) (\<lambda>f2.
     let data = split (CHR ''_'') f2;
         coor = concat (map (split (CHR ''&'')) data) in
     ebind (emap py_int coor) (\<lambda>temp.
     ebind (target1_of temp (int width) (int height)) (\<lambda>target1.
     ebind (augment (lp_transform self) img target1) (\<lambda>(img, target).
     ebind (py_getitem (split (CHR ''-'') per_name) 4) (\<lambda>label.
     ebind (emap py_int (split (CHR ''_'') label)) (\<lambda>label.
     ebind (plate_text self label) (\<lambda>text.
     ebind (encode (lp_target_transform self) text (Some (map Str data))) (\<lambda>data.
     finish img target height width data target1)))))))))))"

section \<open>Sample inputs\<close>

text \<open>
  An annotation as the VOC files hold it: one \<open>dog\<close> that is not difficult, box
  (97, 14, 439, 333), on an image of width 500 and height 375.
\<close>

definition example_bndbox :: element where
  "example_bndbox =
     Element ''bndbox'' None
       [Element ''xmin'' (Some ''97'') [], Element ''ymin'' (Some ''14'') [],
        Element ''xmax'' (Some ''439'') [], Element ''ymax'' (Some ''333'') []]"

definition example_object :: element where
  "example_object =
     Element ''object'' None
       [Element ''name'' (Some ''dog'') [], Element ''pose'' (Some ''Left'') [],
        Element ''truncated'' (Some ''0'') [], Element ''difficult'' (Some ''0'') [],
        example_bndbox]"

definition example_annotation :: element where
  "example_annotation =
     Element ''annotation'' None
       [Element ''folder'' (Some ''VOC2007'') [], Element ''filename'' (Some ''001718.jpg'') [],
        Element ''size'' None
          [Element ''width'' (Some ''500'') [], Element ''height'' (Some ''375'') [],
           Element ''depth'' (Some ''3'') []],
        example_object]"

text \<open>A second object, a difficult \<open>person\<close>, and an annotation holding both.\<close>

definition difficult_object :: element where
  "difficult_object =
     Element ''object'' None
       [Element ''name'' (Some ''Person '') [], Element ''difficult'' (Some ''1'') [],
        Element ''bndbox'' None
          [Element ''xmin'' (Some ''1'') [], Element ''ymin'' (Some ''2'') [],
           Element ''xmax'' (Some ''501'') [], Element ''ymax'' (Some ''376'') []]]"

definition two_objects :: element where
  "two_objects = Element ''annotation'' None [difficult_object, example_object]"

text \<open>
  A world with that annotation under VOC2007 and a one-pixel image beside it (channel
  values 1, 2, 3 in storage order), one manifest naming it, and nothing else.
\<close>

definition one_pixel :: "nat image" where
  "one_pixel = \<lparr> shape = (1, 1, 3), pixels = [[[1, 2, 3]]] \<rparr>"

definition example_world :: "nat world" where
  "example_world =
     \<lparr> file_lines = (\<lambda>p. if p = ''/data/VOC2007/ImageSets/Main/trainval.txt''
                            then Some [''001718'' @ [CHR 0x0A]] else None),
       ET_parse = (\<lambda>p. if p = ''/data/VOC2007/Annotations/001718.xml''
                          then Inr example_annotation else Inl FileNotFoundError),
       imread = (\<lambda>p. if p = ''/data/VOC2007/JPEGImages/001718.jpg'' then Some one_pixel else None),
       glob = (\<lambda>p. []),
       randperm = (\<lambda>n. [0..<n]) \<rparr>"

definition example_voc :: "nat VOCDetection" where
  "example_voc =
     \<lparr> voc_root = ''/data'', voc_image_set = [(''2007'', ''trainval'')], voc_transform = None,
       voc_target_transform = Some (VOCAnnotationTransform_init None False),
       voc_name = ''VOC0712'', ids = [(''/data/VOC2007'', ''001718'')] \<rparr>"

text \<open>
  A world for the plate adapter: three files match the pattern and \<open>randperm 3\<close> gave
  2, 0, 1. The first file name is one the CCPD data set uses.
\<close>

definition plate_file :: string where
  "plate_file =
     ''/d/01-90_85-154&383_386&473-386&473_177&454_154&383_363&402-0_0_22_27_27_33_16-37-15.jpg''"

definition plate_image :: "nat image" where
  "plate_image = \<lparr> shape = (2, 1, 3), pixels = [[[1, 2, 3]], [[4, 5, 6]]] \<rparr>"

definition plate_world :: "nat world" where
  "plate_world =
     \<lparr> file_lines = (\<lambda>p. None),
       ET_parse = (\<lambda>p. Inl FileNotFoundError),
       imread = (\<lambda>p. if p = plate_file then Some plate_image else None),
       glob = (\<lambda>p. if p = ''/d/*.jpg'' then [plate_file, ''/d/b.jpg'', ''/d/c.jpg''] else []),
       randperm = (\<lambda>n. if n = 3 then [2, 0, 1] else [0..<n]) \<rparr>"

text \<open>An augmentation that changes nothing.\<close>

definition keep :: "nat transform" where
  "keep img boxes labels = Inr (img, boxes, labels)"








definition example_voc_augmented :: "nat VOCDetection" where
  "example_voc_augmented = example_voc \<lparr> voc_transform := Some keep \<rparr>"

section \<open>Basic facts\<close>

lemma ebind_Inl [simp]: "ebind (Inl e) f = Inl e"
  by (simp add: ebind_def)

lemma ebind_Inr [simp]: "ebind (Inr x) f = f x"
  by (simp add: ebind_def)

lemma ebind_eq_Inr: "ebind m f = Inr y \<longleftrightarrow> (\<exists>x. m = Inr x \<and> f x = Inr y)"
  by (cases m) simp_all





lemma call_loop_Inr:
  "call_loop self objs w h res = Inr out \<Longrightarrow>
     \<exists>ents. out = res @ ents \<and>
       map Inr ents = map (\<lambda>obj. object_entry self obj w h)
                        (filter (\<lambda>obj. keep_difficult self \<or> difficult obj \<noteq> Inr True) objs)"
proof (induction objs arbitrary: res)
  case Nil
  then show ?case by simp
next
  case (Cons obj objs)
  from Cons.prems obtain dif where dif: "difficult obj = Inr dif"
    by (auto simp: ebind_eq_Inr)
  show ?case
  proof (cases "\<not> keep_difficult self \<and> dif")
    case True
    with Cons.prems dif have "call_loop self objs w h res = Inr out" by simp
    from Cons.IH [OF this] True dif show ?thesis by auto
  next
    case False
    with Cons.prems dif obtain e where e: "object_entry self obj w h = Inr e"
      and rest: "call_loop self objs w h (res @ [e]) = Inr out"
      by (auto simp: ebind_eq_Inr)
    from Cons.IH [OF rest] obtain ents where "out = (res @ [e]) @ ents"
      "map Inr ents = map (\<lambda>obj. object_entry self obj w h)
                        (filter (\<lambda>obj. keep_difficult self \<or> difficult obj \<noteq> Inr True) objs)"
      by blast
    with False dif e show ?thesis
      by (intro exI [of _ "e # ents"]) auto
  qed
qed

lemma call_loop_difficult:
  "call_loop self objs w h res = Inr out \<Longrightarrow> obj \<in> set objs \<Longrightarrow> \<exists>d. difficult obj = Inr d"
proof (induction objs arbitrary: res)
  case Nil
  then show ?case by simp
next
  case (Cons x xs)
  from Cons.prems(1) obtain dif where dif: "difficult x = Inr dif"
    by (auto simp: ebind_eq_Inr)
  show ?case
  proof (cases "obj = x")
    case True
    with dif show ?thesis by blast
  next
    case False
    with Cons.prems(2) have mem: "obj \<in> set xs" by simp
    from Cons.prems(1) dif obtain res' where "call_loop self xs w h res' = Inr out"
      by (auto simp: ebind_eq_Inr split: if_splits)
    from Cons.IH [OF this mem] show ?thesis .
  qed
qed

lemma example_fields:
  "find_child (Some example_object) ''name'' = Inr (Some (Element ''name'' (Some ''dog'') []))"
  "find_child (Some example_object) ''bndbox'' = Inr (Some example_bndbox)"
  "int_field (Some example_bndbox) ''xmin'' = Inr 97"
  "int_field (Some example_bndbox) ''ymin'' = Inr 14"
  "int_field (Some example_bndbox) ''xmax'' = Inr 439"
  "int_field (Some example_bndbox) ''ymax'' = Inr 333"
  "strip (lower ''dog'') = ''dog''"
  "difficult example_object = Inr False"
  "iter example_annotation ''object'' = [example_object]"
  by code_simp+

section \<open>The normalizer\<close>




section \<open>Difficult objects\<close>

text \<open>
  Claim C2. For an annotation the transform accepts, a transform built with
  \<open>keep_difficult = False\<close> returns the entries of exactly the \<open>object\<close> elements whose
  difficult flag is not 1, in document order, and one built with \<open>keep_difficult = True\<close>
  returns the entry of every \<open>object\<close> element.
\<close>

theorem difficult_objects_filtered:
  assumes "VOCAnnotationTransform_call self target width height = Inr res"
  shows "(\<not> keep_difficult self \<longrightarrow>
            map Inr res = map (\<lambda>obj. object_entry self obj width height)
                            (filter (\<lambda>obj. difficult obj \<noteq> Inr True) (iter target ''object''))) \<and>
         (keep_difficult self \<longrightarrow>
            map Inr res = map (\<lambda>obj. object_entry self obj width height) (iter target ''object'')) \<and>
         (\<forall>obj \<in> set (iter target ''object''). \<exists>d. difficult obj = Inr d)"
proof -
  from assms have run: "call_loop self (iter target ''object'') width height [] = Inr res"
    by (simp add: VOCAnnotationTransform_call_def)
  from call_loop_Inr [OF run] have
    "map Inr res = map (\<lambda>obj. object_entry self obj width height)
       (filter (\<lambda>obj. keep_difficult self \<or> difficult obj \<noteq> Inr True) (iter target ''object''))"
    by auto
  moreover have "\<forall>obj \<in> set (iter target ''object''). \<exists>d. difficult obj = Inr d"
    using call_loop_difficult [OF run] by blast
  ultimately show ?thesis by simp
qed

lemma two_objects_runs:
  "VOCAnnotationTransform_call (VOCAnnotationTransform_init None False) two_objects 500 375 =
     Inr [[PyFloat (96 / 500), PyFloat (13 / 375), PyFloat (438 / 500), PyFloat (332 / 375), PyInt 11]]"
  "VOCAnnotationTransform_call (VOCAnnotationTransform_init None True) two_objects 500 375 =
     Inr [[PyFloat 0, PyFloat (1 / 375), PyFloat 1, PyFloat 1, PyInt 14],
          [PyFloat (96 / 500), PyFloat (13 / 375), PyFloat (438 / 500), PyFloat (332 / 375), PyInt 11]]"
  "iter two_objects ''object'' = [difficult_object, example_object]"
  "difficult difficult_object = Inr True"
  by code_simp+

text \<open>At the annotation with a difficult person and a dog, for both settings of the flag.\<close>

theorem difficult_objects_filtered_witness:
  "VOCAnnotationTransform_call (VOCAnnotationTransform_init None False) two_objects 500 375 =
     Inr [[PyFloat (96 / 500), PyFloat (13 / 375), PyFloat (438 / 500), PyFloat (332 / 375), PyInt 11]] \<and>
   map Inr [[PyFloat (96 / 500), PyFloat (13 / 375), PyFloat (438 / 500), PyFloat (332 / 375), PyInt 11]] =
     map (\<lambda>obj. object_entry (VOCAnnotationTransform_init None False) obj 500 375) [example_object] \<and>
   VOCAnnotationTransform_call (VOCAnnotationTransform_init None True) two_objects 500 375 =
     Inr [[PyFloat 0, PyFloat (1 / 375), PyFloat 1, PyFloat 1, PyInt 14],
          [PyFloat (96 / 500), PyFloat (13 / 375), PyFloat (438 / 500), PyFloat (332 / 375), PyInt 11]] \<and>
   map Inr [[PyFloat 0, PyFloat (1 / 375), PyFloat 1, PyFloat 1, PyInt 14],
          [PyFloat (96 / 500), PyFloat (13 / 375), PyFloat (438 / 500), PyFloat (332 / 375), PyInt 11]] =
     map (\<lambda>obj. object_entry (VOCAnnotationTransform_init None True) obj 500 375)
       [difficult_object, example_object]"
proof -
  let ?t = "VOCAnnotationTransform_init None False" and ?k = "VOCAnnotationTransform_init None True"
  have kd: "\<not> keep_difficult ?t" "keep_difficult ?k"
    by (simp_all add: VOCAnnotationTransform_init_def)
  have kept: "filter (\<lambda>obj. difficult obj \<noteq> Inr True) (iter two_objects ''object'') = [example_object]"
    by (simp add: two_objects_runs(3,4) example_fields(8))
  from difficult_objects_filtered [OF two_objects_runs(1)] kd(1) kept
  have a: "map Inr [[PyFloat (96 / 500), PyFloat (13 / 375), PyFloat (438 / 500), PyFloat (332 / 375), PyInt 11]] =
     map (\<lambda>obj. object_entry ?t obj 500 375) [example_object]"
    by presburger
  from difficult_objects_filtered [OF two_objects_runs(2)] kd(2)
  have b: "map Inr [[PyFloat 0, PyFloat (1 / 375), PyFloat 1, PyFloat 1, PyInt 14],
          [PyFloat (96 / 500), PyFloat (13 / 375), PyFloat (438 / 500), PyFloat (332 / 375), PyInt 11]] =
     map (\<lambda>obj. object_entry ?k obj 500 375) [difficult_object, example_object]"
    unfolding two_objects_runs(3) by blast
  from a b two_objects_runs(1,2) show ?thesis by blast
qed

section \<open>The decrement of the XML coordinates\<close>



lemma VOC_CLASSES_distinct: "distinct VOC_CLASSES"
  by (simp add: VOC_CLASSES_def)

lemma VOC_CLASSES_length: "length VOC_CLASSES = 20"
  by (simp add: VOC_CLASSES_def)

lemma update_fresh: "k \<notin> fst ` set ps \<Longrightarrow> AList.update k v ps = ps @ [(k, v)]"
  by (induction ps) auto

lemma py_dict_snoc: "py_dict (ps @ [(k, v)]) = AList.update k v (py_dict ps)"
  by (simp add: py_dict_def)

lemma py_dict_distinct: "distinct (map fst ps) \<Longrightarrow> py_dict ps = ps"
proof (induction ps rule: rev_induct)
  case Nil
  then show ?case by (simp add: py_dict_def)
next
  case (snoc p ps)
  obtain k v where p: "p = (k, v)" by (cases p)
  from snoc.prems p have fresh: "k \<notin> fst ` set ps" and d: "distinct (map fst ps)" by auto
  from snoc.IH [OF d] fresh show ?case
    unfolding p py_dict_snoc by (simp add: update_fresh)
qed

lemma default_vocabulary:
  "class_to_ind (VOCAnnotationTransform_init None kd) = zip VOC_CLASSES (map int [0..<length VOC_CLASSES])"
  "class_to_ind (VOCAnnotationTransform_init (Some []) kd) = zip VOC_CLASSES (map int [0..<length VOC_CLASSES])"
  by (simp_all add: VOCAnnotationTransform_init_def py_dict_distinct VOC_CLASSES_distinct)

lemma default_lookup:
  assumes "i < length VOC_CLASSES"
  shows "dict_get (zip VOC_CLASSES (map int [0..<length VOC_CLASSES])) (VOC_CLASSES ! i) = Inr (int i)"
proof -
  have "map_of (zip VOC_CLASSES (map int [0..<length VOC_CLASSES])) (VOC_CLASSES ! i)
          = Some (map int [0..<length VOC_CLASSES] ! i)"
    by (rule map_of_zip_nth) (simp_all add: VOC_CLASSES_distinct assms)
  with assms show ?thesis by (simp add: dict_get_def)
qed

lemma default_missing:
  assumes "name \<notin> set VOC_CLASSES"
  shows "dict_get (zip VOC_CLASSES (map int [0..<length VOC_CLASSES])) name = Inl KeyError"
proof -
  have "map_of (zip VOC_CLASSES (map int [0..<length VOC_CLASSES])) name = None"
    using assms by simp
  then show ?thesis by (simp only: dict_get_def option.simps)
qed

lemma default_bij:
  "bij_betw (dict_get (zip VOC_CLASSES (map int [0..<length VOC_CLASSES])))
     (set VOC_CLASSES) (Inr ` int ` {0..<length VOC_CLASSES})"
proof -
  let ?d = "zip VOC_CLASSES (map int [0..<length VOC_CLASSES])"
  have inj: "inj_on (dict_get ?d) (set VOC_CLASSES)"
  proof (rule inj_onI)
    fix x y assume "x \<in> set VOC_CLASSES" "y \<in> set VOC_CLASSES" and eq: "dict_get ?d x = dict_get ?d y"
    then obtain i j where i: "i < length VOC_CLASSES" "x = VOC_CLASSES ! i"
      and j: "j < length VOC_CLASSES" "y = VOC_CLASSES ! j"
      by (auto simp: in_set_conv_nth)
    with eq default_lookup [OF i(1)] default_lookup [OF j(1)] show "x = y" by simp
  qed
  have "dict_get ?d ` set VOC_CLASSES = Inr ` int ` {0..<length VOC_CLASSES}"
  proof (intro set_eqI iffI)
    fix r assume "r \<in> dict_get ?d ` set VOC_CLASSES"
    then obtain i where "i < length VOC_CLASSES" "r = dict_get ?d (VOC_CLASSES ! i)"
      by (auto simp: in_set_conv_nth)
    with default_lookup [of i] show "r \<in> Inr ` int ` {0..<length VOC_CLASSES}" by auto
  next
    fix r :: "py_error + int" assume "r \<in> Inr ` int ` {0..<length VOC_CLASSES}"
    then obtain i where i: "i < length VOC_CLASSES" "r = Inr (int i)" by auto
    with default_lookup [OF i(1)] have "r = dict_get ?d (VOC_CLASSES ! i)" by simp
    with i(1) show "r \<in> dict_get ?d ` set VOC_CLASSES" by simp
  qed
  with inj show ?thesis by (simp add: bij_betw_def)
qed

lemma example_manifest: "file_lines example_world (manifest (osp_join ''/data'' (''VOC'' @ ''2007'')) ''trainval'')
              = Some [''001718'' @ [CHR 0x0A]]"
    by code_simp
lemma example_line_strip: "strip (''001718'' @ [CHR 0x0A]) = ''001718''"
    by code_simp
lemma example_voc_init: "VOCDetection_init example_world ''/data'' [(''2007'', ''trainval'')] None
     (Some (VOCAnnotationTransform_init None False)) ''VOC0712'' = Inr example_voc"
proof -
  have j: "osp_join ''/data'' (''VOC'' @ ''2007'') = ''/data/VOC2007''"
    by code_simp
  from example_manifest example_line_strip j show ?thesis
    by (simp add: VOCDetection_init_def example_voc_def)
qed

section \<open>The class vocabulary\<close>

text \<open>
  Claim C8. The default class vocabulary is a bijection from the fixed list of class names
  onto the integers from 0 to count - 1 (count is 20): the names are distinct, the name at
  position \<open>i\<close> maps to \<open>i\<close>, and a name outside the list has no entry. It is built
  by \<open>__init__\<close> (also when an empty dict is passed); no later operation changes it: the
  operations of this module are functions of the transform record that return no new
  record, since no method assigns to \<open>self.class_to_ind\<close> or stores into it, and the
  adapter keeps the transform it was constructed with.
\<close>

theorem default_vocabulary_bijection:
  "class_to_ind (VOCAnnotationTransform_init None kd) = zip VOC_CLASSES (map int [0..<length VOC_CLASSES]) \<and>
   class_to_ind (VOCAnnotationTransform_init (Some []) kd) = class_to_ind (VOCAnnotationTransform_init None kd) \<and>
   distinct VOC_CLASSES \<and> length VOC_CLASSES = 20 \<and>
   bij_betw (dict_get (class_to_ind (VOCAnnotationTransform_init None kd)))
     (set VOC_CLASSES) (Inr ` int ` {0..<length VOC_CLASSES}) \<and>
   (\<forall>i < length VOC_CLASSES.
      dict_get (class_to_ind (VOCAnnotationTransform_init None kd)) (VOC_CLASSES ! i) = Inr (int i)) \<and>
   (\<forall>name. name \<notin> set VOC_CLASSES \<longrightarrow>
      dict_get (class_to_ind (VOCAnnotationTransform_init None kd)) name = Inl KeyError) \<and>
   (\<forall>ds. VOCDetection_init w rootdir image_sets tr (Some (VOCAnnotationTransform_init None kd)) nm = Inr ds \<longrightarrow>
      voc_target_transform ds = Some (VOCAnnotationTransform_init None kd))"
proof -
  have "voc_target_transform ds = Some t"
    if "VOCDetection_init w rootdir image_sets tr (Some t) nm = Inr ds" for ds t
    using that by (cases "ids_loop w rootdir image_sets []") (auto simp: VOCDetection_init_def)
  then show ?thesis
    unfolding default_vocabulary
    using default_bij default_lookup default_missing VOC_CLASSES_distinct VOC_CLASSES_length
    by blast
qed

text \<open>At index 11 (\<open>dog\<close>), at a name outside the list, and at the sample adapter.\<close>

theorem default_vocabulary_bijection_witness: 
  "(11::nat) < length VOC_CLASSES \<and>
   dict_get (class_to_ind (VOCAnnotationTransform_init None False)) (VOC_CLASSES ! 11) = Inr 11 \<and>
   ''zebra'' \<notin> set VOC_CLASSES \<and>
   dict_get (class_to_ind (VOCAnnotationTransform_init None False)) ''zebra'' = Inl KeyError \<and>
   VOCDetection_init example_world ''/data'' [(''2007'', ''trainval'')] None
     (Some (VOCAnnotationTransform_init None False)) ''VOC0712'' = Inr example_voc \<and>
   voc_target_transform example_voc = Some (VOCAnnotationTransform_init None False)"
proof -
  have i: "(11::nat) < length VOC_CLASSES" and z: "''zebra'' \<notin> set VOC_CLASSES"
    by (simp_all add: VOC_CLASSES_def)
  note t = default_vocabulary_bijection [of False example_world "''/data''"
      "[(''2007'', ''trainval'')]" None "''VOC0712''"]
  from t have a: "\<forall>i < length VOC_CLASSES.
      dict_get (class_to_ind (VOCAnnotationTransform_init None False)) (VOC_CLASSES ! i) = Inr (int i)"
    by (elim conjE)
  from t have b: "\<forall>name. name \<notin> set VOC_CLASSES \<longrightarrow>
      dict_get (class_to_ind (VOCAnnotationTransform_init None False)) name = Inl KeyError"
    by (elim conjE)
  from t have c: "\<forall>ds. VOCDetection_init example_world ''/data'' [(''2007'', ''trainval'')] None (Some (VOCAnnotationTransform_init None False)) ''VOC0712'' = Inr ds \<longrightarrow>
      voc_target_transform ds = Some (VOCAnnotationTransform_init None False)"
    by (elim conjE)
  note a' = a [rule_format, OF i]
  note b' = b [rule_format, OF z]
  note c' = c [rule_format, OF example_voc_init]
  from a' have a'': "dict_get (class_to_ind (VOCAnnotationTransform_init None False)) (VOC_CLASSES ! 11) = Inr 11"
    by simp
  from i a'' z b' example_voc_init c' show ?thesis by (intro conjI)
qed




section \<open>pull\_anno\<close>




lemma ids_loop_missing:
  assumes "(year, name) \<in> set image_sets"
    "file_lines w (manifest (osp_join rootdir (''VOC'' @ year)) name) = None"
  shows "ids_loop w rootdir image_sets acc = Inl FileNotFoundError"
  using assms
proof (induction image_sets arbitrary: acc)
  case Nil
  then show ?case by simp
next
  case (Cons s rest)
  obtain y n where s: "s = (y, n)" by (cases s)
  show ?case
  proof (cases "file_lines w (manifest (osp_join rootdir (''VOC'' @ y)) n)")
    case None
    with s show ?thesis by simp
  next
    case (Some ls)
    with Cons.prems s have "(year, name) \<in> set rest" by auto
    from Cons.IH [OF this Cons.prems(2)] Some s show ?thesis by simp
  qed
qed

section \<open>A missing manifest\<close>

text \<open>
  Claim C4, as amended. If the manifest file \<open>ImageSets/Main/<split>.txt\<close> of one of
  the selectors does not exist, the construction of the adapter fails with
  \<open>FileNotFoundError\<close>, the error of \<open>open\<close>, which \<open>__init__\<close> lets through.
\<close>

theorem missing_manifest_file_not_found:
  assumes "(year, name) \<in> set image_sets"
    "file_lines w (manifest (osp_join rootdir (''VOC'' @ year)) name) = None"
  shows "VOCDetection_init w rootdir image_sets transform target_transform dataset_name =
           Inl FileNotFoundError"
  using ids_loop_missing [OF assms] by (simp add: VOCDetection_init_def)

lemma test_manifest_missing:
  "file_lines example_world (manifest (osp_join ''/data'' (''VOC'' @ ''2012'')) ''trainval'') = None"
  by code_simp

text \<open>At the sample world, which has a manifest for VOC2007 and none for VOC2012.\<close>

theorem missing_manifest_file_not_found_witness:
  "(''2012'', ''trainval'') \<in> set [(''2007'', ''trainval''), (''2012'', ''trainval'')] \<and>
   file_lines example_world (manifest (osp_join ''/data'' (''VOC'' @ ''2012'')) ''trainval'') = None \<and>
   VOCDetection_init example_world ''/data'' [(''2007'', ''trainval''), (''2012'', ''trainval'')]
     None (Some (VOCAnnotationTransform_init None False)) ''VOC0712'' = Inl FileNotFoundError"
proof -
  have m: "(''2012'', ''trainval'') \<in> set [(''2007'', ''trainval''), (''2012'', ''trainval'')]"
    by simp
  from missing_manifest_file_not_found [OF m test_manifest_missing] m test_manifest_missing
  show ?thesis by blast
qed

text \<open>
  Claim C4 as stated, with \<open>IndexError\<close>, fails: with no manifest for VOC2012 the
  construction does not end in \<open>IndexError\<close>.
\<close>

theorem missing_manifest_not_index_error:
  "file_lines example_world (manifest (osp_join ''/data'' (''VOC'' @ ''2012'')) ''trainval'') = None \<and>
   VOCDetection_init example_world ''/data'' [(''2012'', ''trainval'')]
     None (Some (VOCAnnotationTransform_init None False)) ''VOC0712'' \<noteq> Inl IndexError"
proof -
  have "VOCDetection_init example_world ''/data'' [(''2012'', ''trainval'')]
     None (Some (VOCAnnotationTransform_init None False)) ''VOC0712'' = Inl FileNotFoundError"
    using test_manifest_missing by (simp add: VOCDetection_init_def)
  with test_manifest_missing show ?thesis by simp
qed

lemma emap_nth:
  assumes "\<forall>x \<in> set xs. x < length temp"
  shows "emap (\<lambda>x. py_getitem temp (int x)) xs = Inr (map (\<lambda>x. temp ! x) xs)"
  using assms by (induction xs) (simp_all add: py_getitem_def)

lemma selected_props:
  assumes "mset (randperm w (length temp)) = mset [0..<length temp]"
  shows "length (selected_of w temp) = min 30000 (length temp)"
    and "distinct (selected_of w temp)"
    and "set (selected_of w temp) \<subseteq> {0..<length temp}"
    and "length temp \<le> 30000 \<Longrightarrow> selected_of w temp = randperm w (length temp)"
proof -
  let ?p = "randperm w (length temp)"
  from mset_eq_length [OF assms] have len: "length ?p = length temp"
    by simp
  from mset_eq_imp_distinct_iff [OF assms] have dist: "distinct ?p"
    by simp
  from mset_eq_setD [OF assms] have st: "set ?p = {0..<length temp}"
    by simp
  show "length (selected_of w temp) = min 30000 (length temp)"
    by (simp add: selected_of_def len min.commute)
  show "distinct (selected_of w temp)"
    by (simp add: selected_of_def dist)
  show "set (selected_of w temp) \<subseteq> {0..<length temp}"
    using set_take_subset [of 30000 ?p] st by (simp add: selected_of_def)
  show "selected_of w temp = ?p" if "length temp \<le> 30000"
    using that len by (simp add: selected_of_def)
qed

section \<open>The bounded subsample of the plate adapter\<close>

text \<open>
  Claim C6. For every pool of candidates the glob of the plate adapter matches, with
  \<open>randperm\<close> returning a permutation of the indices of the pool, the list of selected
  indices has min(30000, size of the pool) entries, has no duplicates and holds indices of
  the pool only; when the pool has fewer than 30000 files every candidate is selected, and
  the adapter's data are the candidates at the selected indices. (That the permutation is
  drawn uniformly is a property of torch, not of this module.)
\<close>

theorem plate_subsample_bounded:
  assumes "mset (randperm w (length (glob w r))) = mset [0..<length (glob w r)]"
  shows "length (selected_of w (glob w r)) = min 30000 (length (glob w r)) \<and>
         distinct (selected_of w (glob w r)) \<and>
         set (selected_of w (glob w r)) \<subseteq> {0..<length (glob w r)} \<and>
         (length (glob w r) < 30000 \<longrightarrow> set (selected_of w (glob w r)) = {0..<length (glob w r)}) \<and>
         (\<exists>ds. LPDataset_init w (Some r) csv_root tr tt = Inr ds \<and>
               lp_data ds = map (\<lambda>x. glob w r ! x) (selected_of w (glob w r)) \<and>
               length (lp_data ds) = min 30000 (length (glob w r)) \<and>
               (length (glob w r) < 30000 \<longrightarrow> mset (lp_data ds) = mset (glob w r)))"
proof -
  let ?temp = "glob w r"
  let ?sel = "selected_of w ?temp"
  note p = selected_props [OF assms]
  from p(3) have inb: "\<forall>x \<in> set ?sel. x < length ?temp" by auto
  have all: "set ?sel = {0..<length ?temp}" if "length ?temp < 30000"
  proof -
    from that p(4) have "?sel = randperm w (length ?temp)" by simp
    moreover from mset_eq_setD [OF assms]
    have "set (randperm w (length ?temp)) = {0..<length ?temp}" by simp
    ultimately show ?thesis by simp
  qed
  have init: "LPDataset_init w (Some r) csv_root tr tt =
     Inr \<lparr> lp_root = Some r, lp_data = map (\<lambda>x. ?temp ! x) ?sel, lp_transform = tr,
           lp_target_transform = tt, lp_name = ''ocr'',
           provinces = provinces_list, alphabets = alphabets_list, ads = ads_list \<rparr>"
    by (simp add: LPDataset_init_def emap_nth [OF inb])
  have ms: "mset (map (\<lambda>x. ?temp ! x) ?sel) = mset ?temp" if "length ?temp < 30000"
  proof -
    from that p(4) have "?sel = randperm w (length ?temp)" by simp
    then have "mset (map (\<lambda>x. ?temp ! x) ?sel) = image_mset (\<lambda>x. ?temp ! x) (mset [0..<length ?temp])"
      using assms by simp
    also have "\<dots> = mset (map (\<lambda>x. ?temp ! x) [0..<length ?temp])" by simp
    also have "\<dots> = mset ?temp" by (simp add: map_nth)
    finally show ?thesis .
  qed
  from p(1,2,3) all init ms show ?thesis by simp
qed

lemma plate_perm: "mset (randperm plate_world (length (glob plate_world ''/d/*.jpg''))) =
                   mset [0..<length (glob plate_world ''/d/*.jpg'')]"
  by (simp add: plate_world_def eval_nat_numeral)

text \<open>At a pool of three files.\<close>

theorem plate_subsample_bounded_witness:
  "mset (randperm plate_world (length (glob plate_world ''/d/*.jpg''))) =
     mset [0..<length (glob plate_world ''/d/*.jpg'')] \<and>
   selected_of plate_world (glob plate_world ''/d/*.jpg'') = [2, 0, 1] \<and>
   length (glob plate_world ''/d/*.jpg'') = 3 \<and>
   length (selected_of plate_world (glob plate_world ''/d/*.jpg'')) = min 30000 3 \<and>
   distinct (selected_of plate_world (glob plate_world ''/d/*.jpg'')) \<and>
   set (selected_of plate_world (glob plate_world ''/d/*.jpg'')) = {0..<3} \<and>
   (\<exists>ds. LPDataset_init plate_world (Some ''/d/*.jpg'') None (Some keep) (None :: unit text_transform option) = Inr ds \<and>
         lp_data ds = [''/d/c.jpg'', plate_file, ''/d/b.jpg''])"
proof -
  have g: "glob plate_world ''/d/*.jpg'' = [plate_file, ''/d/b.jpg'', ''/d/c.jpg'']"
    by (simp add: plate_world_def)
  have s: "selected_of plate_world (glob plate_world ''/d/*.jpg'') = [2, 0, 1]"
    by (simp add: selected_of_def plate_world_def)
  have l: "length (glob plate_world ''/d/*.jpg'') = 3" "length (glob plate_world ''/d/*.jpg'') < 30000"
    by (simp_all add: g)
  note t = plate_subsample_bounded [OF plate_perm, of None "Some keep" "None :: unit text_transform option"]
  from t l(2) have a: "set (selected_of plate_world (glob plate_world ''/d/*.jpg'')) = {0..<length (glob plate_world ''/d/*.jpg'')}"
    by (elim conjE impE)
  from t have b: "\<exists>ds. LPDataset_init plate_world (Some ''/d/*.jpg'') None (Some keep) (None :: unit text_transform option) = Inr ds \<and>
         lp_data ds = map (\<lambda>x. glob plate_world ''/d/*.jpg'' ! x) (selected_of plate_world (glob plate_world ''/d/*.jpg''))"
    by (elim conjE exE) (intro exI conjI, assumption+)
  have m: "map (\<lambda>x. glob plate_world ''/d/*.jpg'' ! x) (selected_of plate_world (glob plate_world ''/d/*.jpg''))
           = [''/d/c.jpg'', plate_file, ''/d/b.jpg'']"
    by (simp add: selected_of_def plate_world_def)
  note c = t [THEN conjunct1] and d = t [THEN conjunct2, THEN conjunct1]
  from plate_perm s l(1) a b c d show ?thesis
    unfolding m l(1) by (intro conjI)
qed



section \<open>The tab-separated variant\<close>




lemma apply_transform_Inr:
  assumes "apply_transform tr img t1 = Inr (rgb, a)"
  shows "\<exists>boxes labels img2 b2 l2. np_split t1 = Inr (boxes, labels) \<and>
           tr img boxes labels = Inr (img2, b2, l2) \<and>
           take_channels [2, 1, 0] img2 = Inr rgb \<and> hstack b2 l2 = Inr a"
  using assms unfolding apply_transform_def
  by (auto simp: ebind_eq_Inr split: prod.splits)

lemma augment_None: "augment None img t1 = Inr (img, None)"
  by (simp add: augment_def)

lemma augment_Some_Inr:
  assumes "augment (Some tr) img t1 = Inr (rgb, tg)"
  shows "\<exists>boxes labels img2 b2 l2 a. np_split t1 = Inr (boxes, labels) \<and>
           tr img boxes labels = Inr (img2, b2, l2) \<and>
           take_channels [2, 1, 0] img2 = Inr rgb \<and> hstack b2 l2 = Inr a \<and> tg = Some a"
proof -
  from assms obtain a where "apply_transform tr img t1 = Inr (rgb, a)" "tg = Some a"
    unfolding augment_def by (auto simp: ebind_eq_Inr split: prod.splits)
  with apply_transform_Inr [of tr img t1 rgb a] show ?thesis by blast
qed

lemma finish_Inr:
  assumes "finish img target h w data t1 = Inr (im, t, h', w', txt, tlen, rois)"
  shows "im = from_numpy_permute img \<and> target = Some t \<and>
         (\<exists>d. data = Some d \<and> py_getitem d 0 = Inr txt \<and> py_getitem d 1 = Inr tlen)"
  using assms unfolding finish_def
  by (auto simp: ebind_eq_Inr Let_def split: option.splits)


lemma encode_None: "encode None txt data = Inr data"
  by (simp add: encode_def)

lemma ImgDataset_getitem_Inr:
  assumes "ImgDataset_getitem w self idx = Inr res"
  shows "\<exists>line f0 r img temp t1 img' tgo f1 data.
           py_getitem (img_data self) idx = Inr line \<and>
           py_getitem (split (CHR 0x09) (rstrip line)) 0 = Inr f0 \<and>
           img_root self = Some r \<and> imread w (osp_join r f0) = Some img \<and>
           emap py_int (slice_2_6 (split (CHR 0x09) (rstrip line))) = Inr temp \<and>
           target1_of temp (int (fst (snd (shape img)))) (int (fst (shape img))) = Inr t1 \<and>
           augment (img_transform self) img t1 = Inr (img', tgo) \<and>
           py_getitem (split (CHR 0x09) (rstrip line)) 1 = Inr f1 \<and>
           encode (img_target_transform self) (lstrip f1) None = Inr data \<and>
           finish img' tgo (fst (shape img)) (fst (snd (shape img))) data t1 = Inr res"
  using assms unfolding ImgDataset_getitem_def imread_shape_def Let_def
  by (auto simp: ebind_eq_Inr case_prod_beta split: option.splits)

lemma LPDataset_getitem_Inr:
  assumes "LPDataset_getitem w self idx = Inr res"
  shows "\<exists>path img per_name f2 temp t1 img' tgo f4 label txt data.
           py_getitem (lp_data self) idx = Inr path \<and> imread w path = Some img \<and>
           py_getitem (split (CHR ''/'') path) (- 1) = Inr per_name \<and>
           py_getitem (split (CHR ''-'') per_name) 2 = Inr f2 \<and>
           emap py_int (concat (map (split (CHR ''&'')) (split (CHR ''_'') f2))) = Inr temp \<and>
           target1_of temp (int (fst (snd (shape img)))) (int (fst (shape img))) = Inr t1 \<and>
           augment (lp_transform self) img t1 = Inr (img', tgo) \<and>
           py_getitem (split (CHR ''-'') per_name) 4 = Inr f4 \<and>
           emap py_int (split (CHR ''_'') f4) = Inr label \<and>
           plate_text self label = Inr txt \<and>
           encode (lp_target_transform self) txt (Some (map Str (split (CHR ''_'') f2))) = Inr data \<and>
           finish img' tgo (fst (shape img)) (fst (snd (shape img))) data t1 = Inr res"
  using assms unfolding LPDataset_getitem_def imread_shape_def Let_def
  by (auto simp: ebind_eq_Inr case_prod_beta split: option.splits)

lemma voc_augment_Inr:
  assumes "voc_augment transform img target = Inr (img', target')"
  shows "(transform = None \<longrightarrow> img' = img) \<and>
         (transform = Some tr \<longrightarrow>
            (\<exists>boxes labels img2 b2 l2.
               tr img boxes labels = Inr (img2, b2, l2) \<and> take_channels [2, 1, 0] img2 = Inr img'))"
proof (cases transform)
  case None
  with assms show ?thesis by (simp add: voc_augment_def)
next
  case (Some f)
  with assms obtain l a where "apply_transform f img l = Inr (img', a)"
    unfolding voc_augment_def
    by (cases target) (auto simp: ebind_eq_Inr case_prod_beta)
  from apply_transform_Inr [OF this] obtain boxes labels img2 b2 l2 where
    "f img boxes labels = Inr (img2, b2, l2)" "take_channels [2, 1, 0] img2 = Inr img'"
    by blast
  with Some show ?thesis by blast
qed

lemma pull_item_Inr:
  assumes "pull_item w self index = Inr (im, gt, h, wd)"
  shows "\<exists>img_id img. py_getitem (ids self) index = Inr img_id \<and>
           imread w (imgpath img_id) = Some img \<and>
           (voc_transform self = None \<longrightarrow> im = from_numpy_permute img) \<and>
           (voc_transform self = Some tr \<longrightarrow>
              (\<exists>boxes labels img2 b2 l2 rgb.
                 tr img boxes labels = Inr (img2, b2, l2) \<and>
                 take_channels [2, 1, 0] img2 = Inr rgb \<and> im = from_numpy_permute rgb))"
proof -
  from assms obtain img_id img target img' target' where
    a: "py_getitem (ids self) index = Inr img_id" "imread w (imgpath img_id) = Some img"
    and b: "voc_augment (voc_transform self) img target = Inr (img', target')"
    and c: "im = from_numpy_permute img'"
    unfolding pull_item_def imread_shape_def
    by (auto simp: ebind_eq_Inr case_prod_beta split: option.splits)
  note v = voc_augment_Inr [OF b, of tr]
  from v c have n: "voc_transform self = None \<longrightarrow> im = from_numpy_permute img"
    by simp
  have s: "voc_transform self = Some tr \<longrightarrow>
              (\<exists>boxes labels img2 b2 l2 rgb.
                 tr img boxes labels = Inr (img2, b2, l2) \<and>
                 take_channels [2, 1, 0] img2 = Inr rgb \<and> im = from_numpy_permute rgb)"
  proof
    assume "voc_transform self = Some tr"
    with v obtain boxes labels img2 b2 l2 where
      "tr img boxes labels = Inr (img2, b2, l2)" "take_channels [2, 1, 0] img2 = Inr img'"
      by blast
    with c show "\<exists>boxes labels img2 b2 l2 rgb.
                 tr img boxes labels = Inr (img2, b2, l2) \<and>
                 take_channels [2, 1, 0] img2 = Inr rgb \<and> im = from_numpy_permute rgb"
      by blast
  qed
  show ?thesis
    by (rule exI [of _ img_id], rule exI [of _ img], intro conjI) (fact a n s)+
qed

lemma take_channels_nth:
  assumes "take_channels [2, 1, 0] a = Inr rgb" "i < length (pixels a)" "j < length (pixels a ! i)"
    "k < 3"
  shows "pixels rgb ! i ! j ! k = pixels a ! i ! j ! (2 - k)"
proof -
  from assms(1) have "pixels rgb = map (map (\<lambda>px. [px ! 2, px ! 1, px ! 0])) (pixels a)"
    unfolding take_channels_def by (auto split: prod.splits if_splits)
  with assms(2,3) have "pixels rgb ! i ! j = [pixels a ! i ! j ! 2, pixels a ! i ! j ! 1, pixels a ! i ! j ! 0]"
    by simp
  moreover from assms(4) have "k = 0 \<or> k = 1 \<or> k = 2" by auto
  ultimately show ?thesis by auto
qed

lemma permute_nth:
  assumes "k < snd (snd (shape a))" "i < length (pixels a)" "j < length (pixels a ! i)"
  shows "pixels (from_numpy_permute a) ! k ! i ! j = pixels a ! i ! j ! k"
    and "shape (from_numpy_permute a) = (snd (snd (shape a)), fst (shape a), fst (snd (shape a)))"
  using assms unfolding from_numpy_permute_def
  by (auto split: prod.splits)


lemma augment_target:
  assumes "augment transform img t1 = Inr (rgb, Some t)"
  shows "\<exists>tr boxes labels img2 b2 l2. transform = Some tr \<and>
           tr img boxes labels = Inr (img2, b2, l2) \<and> take_channels [2, 1, 0] img2 = Inr rgb"
proof (cases transform)
  case None
  with assms show ?thesis by (simp add: augment_def)
next
  case (Some tr)
  with assms augment_Some_Inr [of tr img t1 rgb "Some t"] show ?thesis by blast
qed


section \<open>The returned image\<close>

text \<open>
  Claim C5, as amended. Every retrieval call that returns gives the image with its axes
  permuted from (H, W, C) to (C, H, W). The channel axis is reversed exactly when an
  augmentation transform was supplied, and it is the image the transform returned that is
  reversed: \<open>img[:, :, (2, 1, 0)]\<close> stands inside \<open>if self.transform is not None\<close>.
  Without a transform \<open>VOCDetection\<close> returns the channels in storage order; the OCR
  and plate adapters return only when a transform was supplied. Element by element:
  the reversal puts channel \<open>2 - k\<close> at \<open>k\<close>, the permutation puts element
  \<open>(i, j, k)\<close> at \<open>(k, i, j)\<close>.
\<close>

theorem channels_reversed_with_transform_only:
  "(pull_item w voc index = Inr (im, gt, h, wd) \<longrightarrow>
      (\<exists>img_id img. py_getitem (ids voc) index = Inr img_id \<and>
         imread w (imgpath img_id) = Some img \<and>
         (voc_transform voc = None \<longrightarrow> im = from_numpy_permute img) \<and>
         (voc_transform voc = Some tr \<longrightarrow>
            (\<exists>boxes labels img2 b2 l2 rgb.
               tr img boxes labels = Inr (img2, b2, l2) \<and>
               take_channels [2, 1, 0] img2 = Inr rgb \<and> im = from_numpy_permute rgb)))) \<and>
   (ImgDataset_getitem w ocr idx = Inr (im1, rest1) \<longrightarrow>
      (\<exists>tr img boxes labels img2 b2 l2 rgb. img_transform ocr = Some tr \<and>
         tr img boxes labels = Inr (img2, b2, l2) \<and>
         take_channels [2, 1, 0] img2 = Inr rgb \<and> im1 = from_numpy_permute rgb)) \<and>
   (LPDataset_getitem w lp idx = Inr (im2, rest2) \<longrightarrow>
      (\<exists>tr img boxes labels img2 b2 l2 rgb. lp_transform lp = Some tr \<and>
         tr img boxes labels = Inr (img2, b2, l2) \<and>
         take_channels [2, 1, 0] img2 = Inr rgb \<and> im2 = from_numpy_permute rgb)) \<and>
   (take_channels [2, 1, 0] a = Inr b \<and> i < length (pixels a) \<and> j < length (pixels a ! i) \<and> k < 3 \<longrightarrow>
      pixels b ! i ! j ! k = pixels a ! i ! j ! (2 - k)) \<and>
   (k < snd (snd (shape a)) \<and> i < length (pixels a) \<and> j < length (pixels a ! i) \<longrightarrow>
      shape (from_numpy_permute a) = (snd (snd (shape a)), fst (shape a), fst (snd (shape a))) \<and>
      pixels (from_numpy_permute a) ! k ! i ! j = pixels a ! i ! j ! k)"
proof (intro conjI impI)
  assume "pull_item w voc index = Inr (im, gt, h, wd)"
  from pull_item_Inr [OF this, of tr]
  show "\<exists>img_id img. py_getitem (ids voc) index = Inr img_id \<and>
         imread w (imgpath img_id) = Some img \<and>
         (voc_transform voc = None \<longrightarrow> im = from_numpy_permute img) \<and>
         (voc_transform voc = Some tr \<longrightarrow>
            (\<exists>boxes labels img2 b2 l2 rgb.
               tr img boxes labels = Inr (img2, b2, l2) \<and>
               take_channels [2, 1, 0] img2 = Inr rgb \<and> im = from_numpy_permute rgb))" .
next
  assume run: "ImgDataset_getitem w ocr idx = Inr (im1, rest1)"
  obtain t hh ww tx tlen rois where rest: "rest1 = (t, hh, ww, tx, tlen, rois)"
    by (metis prod_cases6)
  from ImgDataset_getitem_Inr [OF run] obtain img t1 img' tgo h0 w0 data where
    au: "augment (img_transform ocr) img t1 = Inr (img', tgo)"
    and fi: "finish img' tgo h0 w0 data t1 = Inr (im1, rest1)"
    by blast
  from finish_Inr [OF fi [unfolded rest]] have "im1 = from_numpy_permute img'" "tgo = Some t"
    by simp_all
  with augment_target [of "img_transform ocr" img t1 img' t] au
  show "\<exists>tr img boxes labels img2 b2 l2 rgb. img_transform ocr = Some tr \<and>
         tr img boxes labels = Inr (img2, b2, l2) \<and>
         take_channels [2, 1, 0] img2 = Inr rgb \<and> im1 = from_numpy_permute rgb"
    by blast
next
  assume run: "LPDataset_getitem w lp idx = Inr (im2, rest2)"
  obtain t hh ww tx tlen rois where rest: "rest2 = (t, hh, ww, tx, tlen, rois)"
    by (metis prod_cases6)
  from LPDataset_getitem_Inr [OF run] obtain img t1 img' tgo h0 w0 data where
    au: "augment (lp_transform lp) img t1 = Inr (img', tgo)"
    and fi: "finish img' tgo h0 w0 data t1 = Inr (im2, rest2)"
    by blast
  from finish_Inr [OF fi [unfolded rest]] have "im2 = from_numpy_permute img'" "tgo = Some t"
    by simp_all
  with augment_target [of "lp_transform lp" img t1 img' t] au
  show "\<exists>tr img boxes labels img2 b2 l2 rgb. lp_transform lp = Some tr \<and>
         tr img boxes labels = Inr (img2, b2, l2) \<and>
         take_channels [2, 1, 0] img2 = Inr rgb \<and> im2 = from_numpy_permute rgb"
    by blast
next
  assume "take_channels [2, 1, 0] a = Inr b \<and> i < length (pixels a) \<and> j < length (pixels a ! i) \<and> k < 3"
  then show "pixels b ! i ! j ! k = pixels a ! i ! j ! (2 - k)"
    using take_channels_nth [of a b i j k] by blast
next
  assume "k < snd (snd (shape a)) \<and> i < length (pixels a) \<and> j < length (pixels a ! i)"
  then show "shape (from_numpy_permute a) = (snd (snd (shape a)), fst (shape a), fst (snd (shape a)))"
    using permute_nth(2) [of k a i j] by blast
next
  assume "k < snd (snd (shape a)) \<and> i < length (pixels a) \<and> j < length (pixels a ! i)"
  then show "pixels (from_numpy_permute a) ! k ! i ! j = pixels a ! i ! j ! k"
    using permute_nth(1) [of k a i j] by blast
qed

lemma example_pull_item:
  "pull_item example_world example_voc 0 =
     Inr (\<lparr> shape = (3, 1, 1), pixels = [[[1]], [[2]], [[3]]] \<rparr>,
          Boxes [[PyFloat 96, PyFloat 13, PyFloat 438, PyFloat 332, PyInt 11]], 1, 1)"
  "pull_item example_world example_voc_augmented 0 =
     Inr (\<lparr> shape = (3, 1, 1), pixels = [[[3]], [[2]], [[1]]] \<rparr>,
          Array [[96, 13, 438, 332, 11]], 1, 1)"
  by code_simp+

text \<open>
  Claim C5 as stated, with the reversal whether or not a transform was supplied, fails:
  the sample adapter has no transform, and the tensor it returns holds the channel values
  1, 2, 3 of the stored pixel in that order, where the reversed pixel would give 3, 2, 1.
\<close>

theorem storage_order_without_transform:
  "voc_transform example_voc = None \<and>
   imread example_world (imgpath (''/data/VOC2007'', ''001718'')) = Some one_pixel \<and>
   pixels one_pixel = [[[1, 2, 3]]] \<and>
   pull_item example_world example_voc 0 =
     Inr (\<lparr> shape = (3, 1, 1), pixels = [[[1]], [[2]], [[3]]] \<rparr>,
          Boxes [[PyFloat 96, PyFloat 13, PyFloat 438, PyFloat 332, PyInt 11]], 1, 1) \<and>
   take_channels [2, 1, 0] one_pixel = Inr \<lparr> shape = (1, 1, 3), pixels = [[[3, 2, 1]]] \<rparr> \<and>
   from_numpy_permute \<lparr> shape = (1, 1, 3), pixels = [[[3, 2, 1 :: nat]]] \<rparr> =
     \<lparr> shape = (3, 1, 1), pixels = [[[3]], [[2]], [[1]]] \<rparr> \<and>
   \<lparr> shape = (3, 1, 1), pixels = [[[1]], [[2]], [[3 :: nat]]] \<rparr> \<noteq>
     \<lparr> shape = (3, 1, 1), pixels = [[[3]], [[2]], [[1]]] \<rparr>"
proof -
  have "voc_transform example_voc = None" by (simp add: example_voc_def)
  moreover have "imread example_world (imgpath (''/data/VOC2007'', ''001718'')) = Some one_pixel"
    by (simp add: example_world_def imgpath_def)
  moreover have "pixels one_pixel = [[[1, 2, 3]]]" by (simp add: one_pixel_def)
  moreover have "take_channels [2, 1, 0] one_pixel = Inr \<lparr> shape = (1, 1, 3), pixels = [[[3, 2, 1]]] \<rparr>"
    by (simp add: take_channels_def one_pixel_def)
  moreover have "from_numpy_permute \<lparr> shape = (1, 1, 3), pixels = [[[3, 2, 1 :: nat]]] \<rparr> =
     \<lparr> shape = (3, 1, 1), pixels = [[[3]], [[2]], [[1]]] \<rparr>"
    by (simp add: from_numpy_permute_def eval_nat_numeral)
  moreover have "\<lparr> shape = (3, 1, 1), pixels = [[[1]], [[2]], [[3 :: nat]]] \<rparr> \<noteq>
     \<lparr> shape = (3, 1, 1), pixels = [[[3]], [[2]], [[1]]] \<rparr>"
    by simp
  ultimately show ?thesis using example_pull_item(1) by blast
qed


text \<open>At the sample VOC adapter, with and without an augmentation.\<close>

theorem channels_reversed_with_transform_only_witness:
  "pull_item example_world example_voc_augmented 0 =
     Inr (\<lparr> shape = (3, 1, 1), pixels = [[[3]], [[2]], [[1]]] \<rparr>,
          Array [[96, 13, 438, 332, 11]], 1, 1) \<and>
   voc_transform example_voc_augmented = Some keep \<and>
   (\<exists>img boxes labels img2 b2 l2 rgb.
      imread example_world (imgpath (''/data/VOC2007'', ''001718'')) = Some img \<and>
      keep img boxes labels = Inr (img2, b2, l2) \<and> take_channels [2, 1, 0] img2 = Inr rgb \<and>
      \<lparr> shape = (3, 1, 1), pixels = [[[3]], [[2]], [[1]]] \<rparr> = from_numpy_permute rgb) \<and>
   pull_item example_world example_voc 0 =
     Inr (\<lparr> shape = (3, 1, 1), pixels = [[[1]], [[2]], [[3]]] \<rparr>,
          Boxes [[PyFloat 96, PyFloat 13, PyFloat 438, PyFloat 332, PyInt 11]], 1, 1) \<and>
   voc_transform example_voc = None \<and>
   (\<exists>img. imread example_world (imgpath (''/data/VOC2007'', ''001718'')) = Some img \<and>
      \<lparr> shape = (3, 1, 1), pixels = [[[1]], [[2]], [[3]]] \<rparr> = from_numpy_permute img)"
proof -
  have i: "py_getitem (ids example_voc_augmented) 0 = Inr (''/data/VOC2007'', ''001718'')"
    "py_getitem (ids example_voc) 0 = Inr (''/data/VOC2007'', ''001718'')"
    by (simp_all add: example_voc_augmented_def example_voc_def py_getitem_def)
  have t: "voc_transform example_voc_augmented = Some keep" "voc_transform example_voc = None"
    by (simp_all add: example_voc_augmented_def example_voc_def)
  from channels_reversed_with_transform_only [THEN conjunct1, rule_format,
      OF example_pull_item(2), of keep]
  obtain img_id img where a: "py_getitem (ids example_voc_augmented) 0 = Inr img_id"
    "imread example_world (imgpath img_id) = Some img"
    "voc_transform example_voc_augmented = Some keep \<longrightarrow>
            (\<exists>boxes labels img2 b2 l2 rgb.
               keep img boxes labels = Inr (img2, b2, l2) \<and>
               take_channels [2, 1, 0] img2 = Inr rgb \<and>
               \<lparr> shape = (3, 1, 1), pixels = [[[3]], [[2]], [[1]]] \<rparr> = from_numpy_permute rgb)"
    by (elim exE conjE) (rule that)
  from a(1) i(1) have id1: "img_id = (''/data/VOC2007'', ''001718'')" by simp
  from a(3) [rule_format, OF t(1)] a(2) [unfolded id1]
  have first: "\<exists>img boxes labels img2 b2 l2 rgb.
      imread example_world (imgpath (''/data/VOC2007'', ''001718'')) = Some img \<and>
      keep img boxes labels = Inr (img2, b2, l2) \<and> take_channels [2, 1, 0] img2 = Inr rgb \<and>
      \<lparr> shape = (3, 1, 1), pixels = [[[3]], [[2]], [[1]]] \<rparr> = from_numpy_permute rgb"
    by blast
  from channels_reversed_with_transform_only [THEN conjunct1, rule_format,
      OF example_pull_item(1), of keep]
  obtain img_id' img' where b: "py_getitem (ids example_voc) 0 = Inr img_id'"
    "imread example_world (imgpath img_id') = Some img'"
    "voc_transform example_voc = None \<longrightarrow>
       \<lparr> shape = (3, 1, 1), pixels = [[[1]], [[2]], [[3]]] \<rparr> = from_numpy_permute img'"
    by (elim exE conjE) (rule that)
  from b(1) i(2) have id2: "img_id' = (''/data/VOC2007'', ''001718'')" by simp
  from b(3) t(2) b(2) [unfolded id2]
  have second: "\<exists>img. imread example_world (imgpath (''/data/VOC2007'', ''001718'')) = Some img \<and>
      \<lparr> shape = (3, 1, 1), pixels = [[[1]], [[2]], [[3]]] \<rparr> = from_numpy_permute img"
    by blast
  from example_pull_item t first second show ?thesis by (intro conjI)
qed

section \<open>Retrieval without a text-target transform\<close>






end
